theory Spec2Isabelle
  imports
    Main
    "HOL-Library.Char_ord"
    "HOL-Library.List_Lexorder"
    "HOL-Library.Sublist"
begin

section \<open>Data model of \<^verbatim>\<open>name_interface.go\<close>\<close>

text \<open>
  A \<^verbatim>\<open>ModuleGroup\<close> wraps a pointer to a \<^verbatim>\<open>moduleGroup\<close>. The registry stores
  these pointers, and \<^verbatim>\<open>Rename\<close> writes through one of them, so the groups live in
  an explicit heap. An address is a natural number; the nil pointer is \<open>None\<close>. Go is
  memory safe, so every non-nil pointer refers to a record: the heap is a total function.
\<close>

type_synonym addr = nat

text \<open>
  Modelled from the spec: the types \<^verbatim>\<open>moduleGroup\<close> and \<^verbatim>\<open>moduleInfo\<close> are declared
  in another file of the package. Of a group the code reads and writes \<^verbatim>\<open>name\<close>
  and reads \<^verbatim>\<open>modules.firstModule().pos\<close>; the spec describes the group as a mutable
  name with an ordered collection of module variants. The position type is left open
  (\<open>'pos\<close>).
\<close>

record 'pos moduleInfo =
  pos :: 'pos

record 'pos moduleGroup =
  name :: string
  modules :: "'pos moduleInfo list"

type_synonym ModuleGroup = "addr option"

record SkippedModuleInfo =
  filename :: string
  reason :: string

text \<open>
  The two Go maps of the registry are partial functions. Both are created by
  \<^verbatim>\<open>NewSimpleNameInterface\<close>, so neither is the nil map.
\<close>

record SimpleNameInterface =
  modules :: "string \<rightharpoonup> ModuleGroup"
  skippedModules :: "string \<rightharpoonup> SkippedModuleInfo list"

text \<open>The program state: the heap of groups and the registry \<^verbatim>\<open>s\<close>.\<close>

record 'pos world =
  heap :: "addr \<Rightarrow> 'pos moduleGroup"
  registry :: SimpleNameInterface

text \<open>
  The marker interface \<^verbatim>\<open>Namespace\<close>; an interface value is \<open>None\<close> when it is nil.
\<close>

datatype Namespace = NamespaceMarker

text \<open>A panic aborts the call; it is the \<open>Inl\<close> branch of every result.\<close>

datatype panic =
  NilPointerDereference
  | NoFirstModule
  | DuplicateModuleGroupName string

definition deref :: "'pos world \<Rightarrow> ModuleGroup \<Rightarrow> panic + 'pos moduleGroup" where
  "deref w grp =
     (case grp of
        None \<Rightarrow> Inl NilPointerDereference
      | Some a \<Rightarrow> Inr (heap w a))"

text \<open>
  Modelled from the spec: the method \<^verbatim>\<open>firstModule\<close> is declared in another file of
  the package. The spec says that the first-inserted element of the collection of a
  group can be retrieved and that the collection is not empty; on an empty collection
  the model panics.
\<close>

definition firstModule :: "'pos moduleInfo list \<Rightarrow> panic + 'pos moduleInfo" where
  "firstModule l = (case l of [] \<Rightarrow> Inl NoFirstModule | m # _ \<Rightarrow> Inr m)"

text \<open>The method \<^verbatim>\<open>String\<close> of a \<^verbatim>\<open>ModuleGroup\<close> reads the name through the pointer.\<close>

definition ModuleGroup_String :: "'pos world \<Rightarrow> ModuleGroup \<Rightarrow> panic + string" where
  "ModuleGroup_String w h = (case deref w h of Inl p \<Rightarrow> Inl p | Inr g \<Rightarrow> Inr (name g))"

section \<open>Formatting\<close>

text \<open>
  The error texts are built by \<^verbatim>\<open>fmt.Errorf\<close> and \<^verbatim>\<open>strings.Join\<close> of Go's standard
  library. \<^verbatim>\<open>strings.Join\<close> is written out. The verb \<^verbatim>\<open>%q\<close> on a string (Go's quoting
  with escapes) and the verb \<^verbatim>\<open>%s\<close> on a position (its \<^verbatim>\<open>String\<close> method) are
  parameters of the model, the two fields of \<open>fmt\<close>. On a slice of strings \<^verbatim>\<open>%q\<close>
  prints the quoted elements separated by one space, in square brackets. The verb
  \<^verbatim>\<open>%v\<close> on a string prints the string.
\<close>

record 'pos fmt =
  quote :: "string \<Rightarrow> string"
  posString :: "'pos \<Rightarrow> string"

fun Join :: "string list \<Rightarrow> string \<Rightarrow> string" where
  "Join [] sep = []"
| "Join [x] sep = x"
| "Join (x # y # ys) sep = x @ sep @ Join (y # ys) sep"

definition quoteSlice :: "'pos fmt \<Rightarrow> string list \<Rightarrow> string" where
  "quoteSlice f xs = ''['' @ Join (map (quote f) xs) '' '' @ '']''"

section \<open>The operations of \<^verbatim>\<open>SimpleNameInterface\<close>\<close>

text \<open>
  The parameters \<^verbatim>\<open>ctx\<close>, \<^verbatim>\<open>module\<close> and \<^verbatim>\<open>namespace\<close> are never read by the
  code and are left out. An error value is its message; a slice of errors is a list
  (Go's nil slice and its empty slice are both \<open>[]\<close>).
\<close>

definition NewSimpleNameInterface :: SimpleNameInterface where
  "NewSimpleNameInterface = \<lparr>modules = Map.empty, skippedModules = Map.empty\<rparr>"

definition NewModule ::
  "'pos fmt \<Rightarrow> 'pos world \<Rightarrow> ModuleGroup
     \<Rightarrow> panic + ('pos world \<times> Namespace option \<times> string list)" where
  "NewModule f w grp =
     (case deref w grp of
        Inl p \<Rightarrow> Inl p
      | Inr new \<Rightarrow>
          (case SimpleNameInterface.modules (registry w) (name new) of
             Some existingGroup \<Rightarrow>
               (case deref w existingGroup of
                  Inl p \<Rightarrow> Inl p
                | Inr existing \<Rightarrow>
                    (case firstModule (moduleGroup.modules existing) of
                       Inl p \<Rightarrow> Inl p
                     | Inr m \<Rightarrow>
                         Inr (w, None,
                           [''module '' @ quote f (name new) @ '' already defined\<newline>''
                            @ ''       '' @ posString f (pos m)
                            @ '' <-- previous definition here''])))
           | None \<Rightarrow>
               Inr (w\<lparr>registry := (registry w)\<lparr>modules :=
                      (SimpleNameInterface.modules (registry w))(name new \<mapsto> grp)\<rparr>\<rparr>,
                    None, [])))"

definition NewSkippedModule ::
  "'pos world \<Rightarrow> string \<Rightarrow> SkippedModuleInfo \<Rightarrow> 'pos world" where
  "NewSkippedModule w nm info =
     (if nm = [] then w
      else w\<lparr>registry := (registry w)\<lparr>skippedModules :=
             (skippedModules (registry w))
               (nm \<mapsto> (case skippedModules (registry w) nm of
                          None \<Rightarrow> [info]
                        | Some infos \<Rightarrow> infos @ [info]))\<rparr>\<rparr>)"

text \<open>
  A lookup of a missing key gives Go's zero value: the nil group, the nil slice.
\<close>

definition ModuleFromName :: "'pos world \<Rightarrow> string \<Rightarrow> ModuleGroup \<times> bool" where
  "ModuleFromName w moduleName =
     (case SimpleNameInterface.modules (registry w) moduleName of
        None \<Rightarrow> (None, False)
      | Some grp \<Rightarrow> (grp, True))"

definition SkippedModuleFromName ::
  "'pos world \<Rightarrow> string \<Rightarrow> SkippedModuleInfo list \<times> bool" where
  "SkippedModuleFromName w moduleName =
     (case skippedModules (registry w) moduleName of
        None \<Rightarrow> ([], False)
      | Some skipInfos \<Rightarrow> (skipInfos, True))"

text \<open>
  \<^verbatim>\<open>Rename\<close> stores the group under the new key, deletes the key \<^verbatim>\<open>group.name\<close>
  (the name field of the group, not \<^verbatim>\<open>oldName\<close>) and then writes the name field
  through the pointer.
\<close>

definition Rename ::
  "'pos fmt \<Rightarrow> 'pos world \<Rightarrow> string \<Rightarrow> string \<Rightarrow> panic + ('pos world \<times> string list)" where
  "Rename f w oldName newName =
     (case SimpleNameInterface.modules (registry w) newName of
        Some existingGroup \<Rightarrow>
          (case deref w existingGroup of
             Inl p \<Rightarrow> Inl p
           | Inr existing \<Rightarrow>
               (case firstModule (moduleGroup.modules existing) of
                  Inl p \<Rightarrow> Inl p
                | Inr m \<Rightarrow>
                    Inr (w,
                      [''renaming module '' @ quote f oldName @ '' to '' @ quote f newName
                       @ '' conflicts with existing module\<newline>''
                       @ ''       '' @ posString f (pos m)
                       @ '' <-- existing module defined here''])))
      | None \<Rightarrow>
          (case SimpleNameInterface.modules (registry w) oldName of
             None \<Rightarrow>
               Inr (w,
                 [''module '' @ quote f oldName @ '' to renamed to '' @ quote f newName
                  @ '' doesn'' @ [CHR 0x27] @ ''t exist''])
           | Some grp \<Rightarrow>
               (case grp of
                  None \<Rightarrow> Inl NilPointerDereference
                | Some a \<Rightarrow>
                    Inr (\<lparr>heap = (heap w)(a := (heap w a)\<lparr>name := newName\<rparr>),
                          registry = (registry w)\<lparr>modules :=
                            ((SimpleNameInterface.modules (registry w))(newName \<mapsto> grp))
                              (name (heap w a) := None)\<rparr>\<rparr>,
                         []))))"

text \<open>
  \<^verbatim>\<open>AllModules\<close> collects the values of the map and sorts them with \<^verbatim>\<open>sort.Slice\<close>.
  Go leaves the order in which a \<^verbatim>\<open>range\<close> loop visits a map unspecified: the order
  is the parameter \<open>ks\<close>, an enumeration of the keys.

  The closure \<^verbatim>\<open>less\<close> reads the two names through the pointers and, besides its
  answer, records in \<^verbatim>\<open>duplicateName\<close> the name of a pair it finds equal. The
  variable is threaded through the sort.

  \<^verbatim>\<open>sort.Slice\<close> belongs to Go's standard library. It is modelled by the insertion sort
  which that library runs on a short slice: for each position \<^verbatim>\<open>i\<close> from left to
  right, the element moves left while \<^verbatim>\<open>less(j, j-1)\<close> holds. In \<open>siftLeft\<close> the
  part of the slice to the left of the element is held in reverse, nearest neighbour
  first.
\<close>

definition less_groups ::
  "'pos world \<Rightarrow> ModuleGroup \<Rightarrow> ModuleGroup \<Rightarrow> string \<Rightarrow> panic + (bool \<times> string)" where
  "less_groups w gi gj duplicateName =
     (case deref w gi of
        Inl p \<Rightarrow> Inl p
      | Inr a \<Rightarrow>
          (case deref w gj of
             Inl p \<Rightarrow> Inl p
           | Inr b \<Rightarrow>
               Inr (name a < name b,
                    if name a = name b then name a else duplicateName)))"

fun siftLeft ::
  "'pos world \<Rightarrow> ModuleGroup \<Rightarrow> ModuleGroup list \<Rightarrow> string
     \<Rightarrow> panic + (ModuleGroup list \<times> string)" where
  "siftLeft w x [] d = Inr ([x], d)"
| "siftLeft w x (y # ys) d =
     (case less_groups w x y d of
        Inl p \<Rightarrow> Inl p
      | Inr (lt, d') \<Rightarrow>
          if lt then
            (case siftLeft w x ys d' of
               Inl p \<Rightarrow> Inl p
             | Inr (zs, d'') \<Rightarrow> Inr (y # zs, d''))
          else Inr (x # y # ys, d'))"

fun insertionSort ::
  "'pos world \<Rightarrow> ModuleGroup list \<Rightarrow> ModuleGroup list \<Rightarrow> string
     \<Rightarrow> panic + (ModuleGroup list \<times> string)" where
  "insertionSort w [] placed d = Inr (rev placed, d)"
| "insertionSort w (x # xs) placed d =
     (case siftLeft w x placed d of
        Inl p \<Rightarrow> Inl p
      | Inr (placed', d') \<Rightarrow> insertionSort w xs placed' d')"

definition AllModules :: "'pos world \<Rightarrow> string list \<Rightarrow> panic + ModuleGroup list" where
  "AllModules w ks =
     (let groups = List.map_filter (SimpleNameInterface.modules (registry w)) ks in
      case insertionSort w groups [] [] of
        Inl p \<Rightarrow> Inl p
      | Inr (sorted_groups, duplicateName) \<Rightarrow>
          if duplicateName \<noteq> [] then Inl (DuplicateModuleGroupName duplicateName)
          else Inr sorted_groups)"

definition MissingDependencyError ::
  "'pos fmt \<Rightarrow> 'pos world \<Rightarrow> string \<Rightarrow> string \<Rightarrow> string list \<Rightarrow> string" where
  "MissingDependencyError f w depender dependency guess =
     (case SkippedModuleFromName w dependency of
        (skipInfos, skipped) \<Rightarrow>
          if skipped then
            ''module '' @ quote f depender @ '' depends on skipped module ''
            @ quote f dependency @ ''; '' @ quote f dependency
            @ '' was defined in files(s) ['' @ Join (map filename skipInfos) '', ''
            @ ''], but was skipped for reason(s) ['' @ Join (map reason skipInfos) ''; ''
            @ '']''
          else
            quote f depender @ '' depends on undefined module '' @ quote f dependency
            @ ''.''
            @ (if length guess > 0 then '' Did you mean '' @ quoteSlice f guess @ ''?''
               else []))"

definition GetNamespace :: "Namespace option" where
  "GetNamespace = None"

definition UniqueName :: "string \<Rightarrow> string" where
  "UniqueName nm = nm"

section \<open>The invariant of the registry and sequences of registrations\<close>

text \<open>
  \<^verbatim>\<open>NewModule\<close> stores a group under the name the group carries, and \<^verbatim>\<open>Rename\<close>
  moves it to the new key and writes the new name into it. So in every state that
  these operations build, each key leads to a group that is not nil and carries the
  key as its name: two entries never share a name. \<^verbatim>\<open>Rename\<close> relies on this when it
  deletes the key \<^verbatim>\<open>group.name\<close>.
\<close>

definition names_consistent :: "'pos world \<Rightarrow> bool" where
  "names_consistent w \<longleftrightarrow>
     (\<forall>n grp. SimpleNameInterface.modules (registry w) n = Some grp
        \<longrightarrow> ModuleGroup_String w grp = Inr n)"

text \<open>
  A sequence of registrations that all succeed: each call returns without panic and
  with an empty list of errors, and the next call runs on the state it returns.
\<close>

fun registerAll :: "'pos fmt \<Rightarrow> 'pos world \<Rightarrow> ModuleGroup list \<Rightarrow> 'pos world option" where
  "registerAll f w [] = Some w"
| "registerAll f w (grp # grps) =
     (case NewModule f w grp of
        Inr (w', namespace, []) \<Rightarrow> registerAll f w' grps
      | _ \<Rightarrow> None)"

section \<open>Example data\<close>

text \<open>
  A concrete formatter (double quotes around the string, a position printed as it is),
  a heap of five groups and a registry holding three of them, with two skip records
  under one name. The theorems below are evaluated on them.
\<close>

definition example_fmt :: "string fmt" where
  "example_fmt = \<lparr>quote = (\<lambda>s. [CHR 0x22] @ s @ [CHR 0x22]), posString = (\<lambda>p. p)\<rparr>"

definition example_heap :: "addr \<Rightarrow> string moduleGroup" where
  "example_heap a =
     (if a = 0 then \<lparr>name = ''zeta'', modules = [\<lparr>pos = ''a/Blueprints:1:1''\<rparr>]\<rparr>
      else if a = 1 then \<lparr>name = ''alpha'', modules = [\<lparr>pos = ''b/Blueprints:4:1''\<rparr>]\<rparr>
      else if a = 2 then \<lparr>name = ''mu'', modules = [\<lparr>pos = ''c/Blueprints:7:1''\<rparr>]\<rparr>
      else if a = 3 then \<lparr>name = ''zeta'', modules = [\<lparr>pos = ''d/Blueprints:2:1''\<rparr>]\<rparr>
      else \<lparr>name = [], modules = [\<lparr>pos = ''e/Blueprints:3:1''\<rparr>]\<rparr>)"

definition example_world :: "string world" where
  "example_world =
     \<lparr>heap = example_heap,
      registry =
        \<lparr>modules = [''zeta'' \<mapsto> Some 0, ''alpha'' \<mapsto> Some 1, ''mu'' \<mapsto> Some 2],
         skippedModules =
           [''gone'' \<mapsto> [\<lparr>filename = ''fileA.bp'', reason = ''license''\<rparr>,
                          \<lparr>filename = ''fileB.bp'', reason = ''platform mismatch''\<rparr>]]\<rparr>\<rparr>"

text \<open>
  A storage that breaks the invariant: two keys, two groups, and both groups carry the
  empty name.
\<close>

definition duplicate_world :: "string world" where
  "duplicate_world =
     \<lparr>heap = (\<lambda>a. \<lparr>name = [], modules = [\<lparr>pos = ''e/Blueprints:3:1''\<rparr>]\<rparr>),
      registry =
        \<lparr>modules = [''a'' \<mapsto> Some 0, ''b'' \<mapsto> Some 1], skippedModules = Map.empty\<rparr>\<rparr>"

section \<open>Equations of the operations, branch by branch\<close>

lemma NewModule_fresh_eq:
  assumes "deref w grp = Inr new"
    and "SimpleNameInterface.modules (registry w) (name new) = None"
  shows "NewModule f w grp =
           Inr (w\<lparr>registry := (registry w)\<lparr>modules :=
                  (SimpleNameInterface.modules (registry w))(name new \<mapsto> grp)\<rparr>\<rparr>, None, [])"
  using assms by (simp add: NewModule_def)

lemma NewModule_present_eq:
  assumes "deref w grp = Inr new"
    and "SimpleNameInterface.modules (registry w) (name new) = Some existingGroup"
    and "deref w existingGroup = Inr existing"
    and "firstModule (moduleGroup.modules existing) = Inr m"
  shows "NewModule f w grp =
           Inr (w, None,
             [''module '' @ quote f (name new) @ '' already defined\<newline>''
              @ ''       '' @ posString f (pos m) @ '' <-- previous definition here''])"
  using assms by (simp add: NewModule_def)

lemma NewModule_no_errors:
  assumes "NewModule f w grp = Inr (w', namespace, [])"
  obtains new where "deref w grp = Inr new"
    and "SimpleNameInterface.modules (registry w) (name new) = None"
    and "w' = w\<lparr>registry := (registry w)\<lparr>modules :=
                  (SimpleNameInterface.modules (registry w))(name new \<mapsto> grp)\<rparr>\<rparr>"
  using assms by (auto simp: NewModule_def split: sum.splits option.splits)

lemma Rename_conflict_eq:
  assumes "SimpleNameInterface.modules (registry w) newName = Some existingGroup"
    and "deref w existingGroup = Inr existing"
    and "firstModule (moduleGroup.modules existing) = Inr m"
  shows "Rename f w oldName newName =
           Inr (w,
             [''renaming module '' @ quote f oldName @ '' to '' @ quote f newName
              @ '' conflicts with existing module\<newline>''
              @ ''       '' @ posString f (pos m)
              @ '' <-- existing module defined here''])"
  using assms by (simp add: Rename_def)

lemma Rename_missing_eq:
  assumes "SimpleNameInterface.modules (registry w) newName = None"
    and "SimpleNameInterface.modules (registry w) oldName = None"
  shows "Rename f w oldName newName =
           Inr (w,
             [''module '' @ quote f oldName @ '' to renamed to '' @ quote f newName
              @ '' doesn'' @ [CHR 0x27] @ ''t exist''])"
  using assms by (simp add: Rename_def)

lemma Rename_success_eq:
  assumes "SimpleNameInterface.modules (registry w) newName = None"
    and "SimpleNameInterface.modules (registry w) oldName = Some (Some a)"
  shows "Rename f w oldName newName =
           Inr (\<lparr>heap = (heap w)(a := (heap w a)\<lparr>name := newName\<rparr>),
                 registry = (registry w)\<lparr>modules :=
                   ((SimpleNameInterface.modules (registry w))(newName \<mapsto> Some a))
                     (name (heap w a) := None)\<rparr>\<rparr>, [])"
  using assms by (simp add: Rename_def)

lemma MissingDependencyError_skipped_eq:
  "skippedModules (registry w) dependency = Some skipInfos \<Longrightarrow>
   MissingDependencyError f w depender dependency guess =
     ''module '' @ quote f depender @ '' depends on skipped module ''
     @ quote f dependency @ ''; '' @ quote f dependency
     @ '' was defined in files(s) ['' @ Join (map filename skipInfos) '', ''
     @ ''], but was skipped for reason(s) ['' @ Join (map reason skipInfos) ''; ''
     @ '']''"
  by (simp add: MissingDependencyError_def SkippedModuleFromName_def)

lemma MissingDependencyError_undefined_eq:
  "skippedModules (registry w) dependency = None \<Longrightarrow>
   MissingDependencyError f w depender dependency guess =
     quote f depender @ '' depends on undefined module '' @ quote f dependency @ ''.''
     @ (if guess = [] then [] else '' Did you mean '' @ quoteSlice f guess @ ''?'')"
  by (simp add: MissingDependencyError_def SkippedModuleFromName_def)

lemma ModuleGroup_String_Inr:
  "ModuleGroup_String w grp = Inr n \<longleftrightarrow> (\<exists>a. grp = Some a \<and> name (heap w a) = n)"
  by (auto simp: ModuleGroup_String_def deref_def split: option.splits)

lemma sublist_trans': "sublist xs ys \<Longrightarrow> sublist ys zs \<Longrightarrow> sublist xs zs"
  by (rule sublist_order.order.trans)

lemma sublist_Join: "x \<in> set xs \<Longrightarrow> sublist x (Join xs sep)"
proof (induction xs sep rule: Join.induct)
  case (1 sep)
  then show ?case by simp
next
  case (2 y sep)
  then show ?case by simp
next
  case (3 y z zs sep)
  show ?case
  proof (cases "x = y")
    case True
    then show ?thesis by simp
  next
    case False
    with 3 have "sublist x (Join (z # zs) sep)" by simp
    then obtain ps ss where "Join (z # zs) sep = ps @ x @ ss"
      by (auto simp: sublist_def)
    then have "Join (y # z # zs) sep = (y @ sep @ ps) @ x @ ss" by simp
    then show ?thesis unfolding sublist_def by blast
  qed
qed

lemma sublist_quoteSlice: "g \<in> set guess \<Longrightarrow> sublist (quote f g) (quoteSlice f guess)"
proof -
  assume "g \<in> set guess"
  then have "sublist (quote f g) (Join (map (quote f) guess) '' '')"
    by (intro sublist_Join) simp
  moreover have "sublist (Join (map (quote f) guess) '' '') (quoteSlice f guess)"
    unfolding quoteSlice_def by (rule sublist_appendI)
  ultimately show ?thesis by (rule sublist_trans')
qed

section \<open>The invariant is established and preserved\<close>

lemma names_consistent_fresh:
  "names_consistent \<lparr>heap = h, registry = NewSimpleNameInterface\<rparr>"
  by (simp add: names_consistent_def NewSimpleNameInterface_def)

lemma NewModule_names_consistent:
  assumes "names_consistent w" and "NewModule f w grp = Inr (w', namespace, errs)"
  shows "names_consistent w'"
proof (cases errs)
  case Nil
  with assms(2) obtain new where new: "deref w grp = Inr new"
    "SimpleNameInterface.modules (registry w) (name new) = None"
    "w' = w\<lparr>registry := (registry w)\<lparr>modules :=
                  (SimpleNameInterface.modules (registry w))(name new \<mapsto> grp)\<rparr>\<rparr>"
    by (auto elim: NewModule_no_errors)
  then show ?thesis using assms(1)
    by (auto simp: names_consistent_def ModuleGroup_String_def deref_def split: option.splits)
next
  case (Cons e es)
  with assms(2) have "w' = w"
    by (auto simp: NewModule_def split: sum.splits option.splits)
  with assms(1) show ?thesis by simp
qed

lemma NewSkippedModule_names_consistent:
  "names_consistent w \<Longrightarrow> names_consistent (NewSkippedModule w nm info)"
  by (auto simp: names_consistent_def NewSkippedModule_def ModuleGroup_String_Inr)

lemma Rename_names_consistent:
  assumes "names_consistent w" and "Rename f w oldName newName = Inr (w', errs)"
  shows "names_consistent w'"
proof (cases errs)
  case Nil
  with assms(2) obtain a where a:
    "SimpleNameInterface.modules (registry w) newName = None"
    "SimpleNameInterface.modules (registry w) oldName = Some (Some a)"
    by (auto simp: Rename_def split: sum.splits option.splits)
  from assms(1) a(2) have nm: "name (heap w a) = oldName"
    by (auto simp: names_consistent_def ModuleGroup_String_Inr)
  from Rename_success_eq [OF a, of f] assms(2)
  have w': "w' = \<lparr>heap = (heap w)(a := (heap w a)\<lparr>name := newName\<rparr>),
                 registry = (registry w)\<lparr>modules :=
                   ((SimpleNameInterface.modules (registry w))(newName \<mapsto> Some a))
                     (name (heap w a) := None)\<rparr>\<rparr>"
    by simp
  show ?thesis
    unfolding names_consistent_def
  proof (intro allI impI)
    fix n grp assume "SimpleNameInterface.modules (registry w') n = Some grp"
    then have c: "(n = newName \<and> grp = Some a) \<or>
         (n \<noteq> newName \<and> n \<noteq> oldName \<and> SimpleNameInterface.modules (registry w) n = Some grp)"
      using w' nm by (auto split: if_splits)
    then show "ModuleGroup_String w' grp = Inr n"
    proof
      assume "n = newName \<and> grp = Some a"
      then show ?thesis using w' by (simp add: ModuleGroup_String_Inr)
    next
      assume r: "n \<noteq> newName \<and> n \<noteq> oldName \<and> SimpleNameInterface.modules (registry w) n = Some grp"
      with assms(1) obtain b where b: "grp = Some b" "name (heap w b) = n"
        by (auto simp: names_consistent_def ModuleGroup_String_Inr)
      with r nm have "b \<noteq> a" by auto
      with b w' show ?thesis by (simp add: ModuleGroup_String_Inr)
    qed
  qed
next
  case (Cons e es)
  with assms(2) have "w' = w"
    by (auto simp: Rename_def split: sum.splits option.splits)
  with assms(1) show ?thesis by simp
qed

lemma NewSkippedModule_empty_name_absent:
  "skippedModules (registry w) [] = None \<Longrightarrow>
   skippedModules (registry (NewSkippedModule w nm info)) [] = None"
  by (simp add: NewSkippedModule_def)

lemma registerAll_Some:
  assumes "registerAll f w grps = Some w'" and "names_consistent w"
  shows "names_consistent w' \<and> heap w' = heap w
         \<and> ran (SimpleNameInterface.modules (registry w'))
             = ran (SimpleNameInterface.modules (registry w)) \<union> set grps"
  using assms
proof (induction grps arbitrary: w)
  case Nil
  then show ?case by simp
next
  case (Cons grp grps)
  from Cons.prems(1) obtain w1 namespace
    where n: "NewModule f w grp = Inr (w1, namespace, [])"
      and r: "registerAll f w1 grps = Some w'"
    by (auto split: sum.splits list.splits)
  from n obtain new
    where new: "deref w grp = Inr new"
      "SimpleNameInterface.modules (registry w) (name new) = None"
      "w1 = w\<lparr>registry := (registry w)\<lparr>modules :=
                  (SimpleNameInterface.modules (registry w))(name new \<mapsto> grp)\<rparr>\<rparr>"
    by (rule NewModule_no_errors)
  have c1: "names_consistent w1"
    using Cons.prems(2) n by (rule NewModule_names_consistent)
  have "ran (SimpleNameInterface.modules (registry w1))
          = insert grp (ran (SimpleNameInterface.modules (registry w)))"
    using new(2,3) by simp
  moreover have "heap w1 = heap w" using new(3) by simp
  ultimately show ?case using Cons.IH [OF r c1] by auto
qed

section \<open>Registration\<close>

text \<open>
  C1. When the name of the group passed to \<^verbatim>\<open>NewModule\<close> is already registered, the
  call returns a list of exactly one error, whose text starts with
  \<^verbatim>\<open>module "<name>" already defined\<close> and contains the position of the first module
  of the group that is registered under the name. The state returned is the state
  given: the map of names, the map of skip records and every group on the heap,
  the registered one included, are unchanged. The group passed is not nil (the code
  reads its name), and the registered group is not nil and has a first module (the
  code prints its position; the call panics otherwise).
\<close>

theorem NewModule_duplicate_fails:
  assumes "deref w grp = Inr new"
    and "SimpleNameInterface.modules (registry w) (name new) = Some existingGroup"
    and "deref w existingGroup = Inr existing"
    and "firstModule (moduleGroup.modules existing) = Inr m"
  shows "\<exists>e. NewModule f w grp = Inr (w, None, [e])
           \<and> sublist (''module '' @ quote f (name new) @ '' already defined'') e
           \<and> sublist (posString f (pos m)) e"
proof -
  let ?e = "''module '' @ quote f (name new) @ '' already defined\<newline>''
              @ ''       '' @ posString f (pos m) @ '' <-- previous definition here''"
  have "NewModule f w grp = Inr (w, None, [?e])"
    using assms by (rule NewModule_present_eq)
  moreover have "sublist (''module '' @ quote f (name new) @ '' already defined'') ?e"
    unfolding sublist_def
    by (rule exI [of _ "[]"], rule exI [of _ "[CHR 0x0A] @ ''       '' @ posString f (pos m) @ '' <-- previous definition here''"]) simp
  moreover have "sublist (posString f (pos m)) ?e"
    unfolding sublist_def
    by (rule exI [of _ "''module '' @ quote f (name new) @ '' already defined\<newline>'' @ ''       ''"], rule exI [of _ "'' <-- previous definition here''"]) simp
  ultimately show ?thesis by blast
qed

theorem NewModule_duplicate_fails_witness:
  "\<exists>e. NewModule example_fmt example_world (Some 3) = Inr (example_world, None, [e])
       \<and> sublist ''a/Blueprints:1:1'' e"
proof -
  have h1: "deref example_world (Some 3) = Inr (example_heap 3)"
    by (simp add: deref_def example_world_def)
  have h2: "SimpleNameInterface.modules (registry example_world) (name (example_heap 3)) = Some (Some 0)"
    by (simp add: example_world_def example_heap_def)
  have h3: "deref example_world (Some 0) = Inr (example_heap 0)"
    by (simp add: deref_def example_world_def)
  have h4: "firstModule (moduleGroup.modules (example_heap 0)) = Inr \<lparr>pos = ''a/Blueprints:1:1''\<rparr>"
    by (simp add: firstModule_def example_heap_def)
  from NewModule_duplicate_fails [OF h1 h2 h3 h4, of example_fmt] show ?thesis
    by (auto simp: example_fmt_def)
qed

text \<open>
  C2. When the name of the group passed to \<^verbatim>\<open>NewModule\<close> is not registered, the
  call returns no error and the nil namespace, and \<^verbatim>\<open>ModuleFromName\<close> with that
  name on the state returned finds the very group that was passed. The heap is
  unchanged.
\<close>

theorem NewModule_fresh_succeeds:
  assumes "deref w grp = Inr new"
    and "SimpleNameInterface.modules (registry w) (name new) = None"
  shows "\<exists>w'. NewModule f w grp = Inr (w', None, [])
           \<and> ModuleFromName w' (name new) = (grp, True)
           \<and> heap w' = heap w"
  using NewModule_fresh_eq [OF assms, of f] by (simp add: ModuleFromName_def)

theorem NewModule_fresh_succeeds_witness:
  "\<exists>w'. NewModule example_fmt example_world (Some 4) = Inr (w', None, [])
        \<and> ModuleFromName w' [] = (Some 4, True)"
proof -
  have h1: "deref example_world (Some 4) = Inr (example_heap 4)"
    by (simp add: deref_def example_world_def)
  have h2: "SimpleNameInterface.modules (registry example_world) (name (example_heap 4)) = None"
    by (simp add: example_world_def example_heap_def)
  from NewModule_fresh_succeeds [OF h1 h2, of example_fmt] show ?thesis
    by (auto simp: example_heap_def)
qed

text \<open>
  C10. \<^verbatim>\<open>NewModule\<close> has no check for the empty name: a group whose name is the empty
  string is registered like any other when the empty name is free, and
  \<^verbatim>\<open>ModuleFromName\<close> with the empty name then finds it. \<^verbatim>\<open>NewSkippedModule\<close> with the
  empty name, by contrast, leaves the state as it is.
\<close>

theorem NewModule_accepts_empty_name:
  assumes "ModuleGroup_String w grp = Inr []"
    and "SimpleNameInterface.modules (registry w) [] = None"
  shows "\<exists>w'. NewModule f w grp = Inr (w', None, [])
           \<and> ModuleFromName w' [] = (grp, True)
           \<and> NewSkippedModule w' [] info = w'"
proof -
  from assms(1) obtain new where new: "deref w grp = Inr new" "name new = []"
    by (auto simp: ModuleGroup_String_def split: sum.splits)
  from NewModule_fresh_eq [of w grp new f] new assms(2) show ?thesis
    by (simp add: ModuleFromName_def NewSkippedModule_def)
qed

theorem NewModule_accepts_empty_name_witness:
  "\<exists>w'. NewModule example_fmt example_world (Some 4) = Inr (w', None, [])
        \<and> ModuleFromName w' [] = (Some 4, True)
        \<and> NewSkippedModule w' [] \<lparr>filename = ''fileA.bp'', reason = ''license''\<rparr> = w'"
proof -
  have h1: "ModuleGroup_String example_world (Some 4) = Inr []"
    by (simp add: ModuleGroup_String_def deref_def example_world_def example_heap_def)
  have h2: "SimpleNameInterface.modules (registry example_world) [] = None"
    by (simp add: example_world_def)
  from NewModule_accepts_empty_name [OF h1 h2, of example_fmt] show ?thesis
    by blast
qed

section \<open>Skip records\<close>

text \<open>
  C8. \<^verbatim>\<open>NewSkippedModule\<close> has no failing branch: it returns a state for every
  input. With the empty name it returns the state unchanged, and a lookup of the
  empty name afterwards reports nothing skipped (no operation ever stores a record
  under the empty name, see \<open>NewSkippedModule_empty_name_absent\<close>). With any other name
  it puts the record at the end of the records of that name; the records of every
  other name, the map of modules and the heap are unchanged.
\<close>

theorem NewSkippedModule_appends:
  "NewSkippedModule w [] info = w
   \<and> (skippedModules (registry w) [] = None \<longrightarrow>
        SkippedModuleFromName (NewSkippedModule w [] info) [] = ([], False))
   \<and> (nm \<noteq> [] \<longrightarrow>
        SkippedModuleFromName (NewSkippedModule w nm info) nm =
          (fst (SkippedModuleFromName w nm) @ [info], True)
        \<and> (\<forall>n. n \<noteq> nm \<longrightarrow>
              SkippedModuleFromName (NewSkippedModule w nm info) n = SkippedModuleFromName w n)
        \<and> SimpleNameInterface.modules (registry (NewSkippedModule w nm info))
            = SimpleNameInterface.modules (registry w)
        \<and> heap (NewSkippedModule w nm info) = heap w)"
  by (simp add: NewSkippedModule_def SkippedModuleFromName_def split: option.splits)

theorem NewSkippedModule_appends_witness:
  "SkippedModuleFromName
     (NewSkippedModule example_world [] \<lparr>filename = ''fileC.bp'', reason = ''arch''\<rparr>) []
     = ([], False)
   \<and> SkippedModuleFromName
     (NewSkippedModule example_world ''gone'' \<lparr>filename = ''fileC.bp'', reason = ''arch''\<rparr>)
     ''gone''
     = ([\<lparr>filename = ''fileA.bp'', reason = ''license''\<rparr>,
         \<lparr>filename = ''fileB.bp'', reason = ''platform mismatch''\<rparr>,
         \<lparr>filename = ''fileC.bp'', reason = ''arch''\<rparr>], True)"
proof -
  have h: "skippedModules (registry example_world) [] = None"
    by (simp add: example_world_def)
  have g: "fst (SkippedModuleFromName example_world ''gone'') =
      [\<lparr>filename = ''fileA.bp'', reason = ''license''\<rparr>,
       \<lparr>filename = ''fileB.bp'', reason = ''platform mismatch''\<rparr>]"
    by (simp add: SkippedModuleFromName_def example_world_def)
  from NewSkippedModule_appends
    [of example_world "\<lparr>filename = ''fileC.bp'', reason = ''arch''\<rparr>" "''gone''"] h g
  show ?thesis by auto
qed

section \<open>Renaming\<close>

text \<open>
  C3. Let \<open>A\<close> be registered and \<open>B\<close> not (so \<open>A\<close> and \<open>B\<close> differ), and let the
  group registered under \<open>A\<close> carry the name \<open>A\<close>, as every group does that the
  operations of this file have registered (\<open>names_consistent\<close>, which a new registry
  satisfies and \<^verbatim>\<open>NewModule\<close>, \<^verbatim>\<open>NewSkippedModule\<close> and \<^verbatim>\<open>Rename\<close> preserve). Then
  \<^verbatim>\<open>Rename\<close> returns no error. Before the call the lookup of \<open>A\<close> finds the group and
  the lookup of \<open>B\<close> finds nothing; after it the lookup of \<open>A\<close> finds nothing, the
  lookup of \<open>B\<close> finds the same group, and the name of the group is \<open>B\<close>. So in
  both states that a caller can observe exactly one of the two names leads to the
  group. Every other name is looked up as before.
\<close>

theorem Rename_moves_group:
  assumes "SimpleNameInterface.modules (registry w) A = Some grp"
    and "ModuleGroup_String w grp = Inr A"
    and "SimpleNameInterface.modules (registry w) B = None"
  shows "\<exists>w'. Rename f w A B = Inr (w', [])
           \<and> ModuleFromName w A = (grp, True) \<and> ModuleFromName w B = (None, False)
           \<and> ModuleFromName w' A = (None, False) \<and> ModuleFromName w' B = (grp, True)
           \<and> ModuleGroup_String w' grp = Inr B
           \<and> (\<forall>n. n \<noteq> A \<and> n \<noteq> B \<longrightarrow> ModuleFromName w' n = ModuleFromName w n)"
proof -
  from assms(2) obtain a where a: "grp = Some a" "name (heap w a) = A"
    by (auto simp: ModuleGroup_String_def deref_def split: option.splits)
  have ne: "A \<noteq> B" using assms(1,3) by auto
  have "Rename f w A B =
           Inr (\<lparr>heap = (heap w)(a := (heap w a)\<lparr>name := B\<rparr>),
                 registry = (registry w)\<lparr>modules :=
                   ((SimpleNameInterface.modules (registry w))(B \<mapsto> Some a))
                     (name (heap w a) := None)\<rparr>\<rparr>, [])"
    using assms(1,3) a by (intro Rename_success_eq) simp_all
  then show ?thesis
    using assms(1,3) a ne
    by (simp add: ModuleFromName_def ModuleGroup_String_def deref_def)
qed

theorem Rename_moves_group_witness:
  "\<exists>w'. Rename example_fmt example_world ''alpha'' ''beta'' = Inr (w', [])
        \<and> ModuleFromName w' ''alpha'' = (None, False)
        \<and> ModuleFromName w' ''beta'' = (Some 1, True)
        \<and> ModuleGroup_String w' (Some 1) = Inr ''beta''"
proof -
  have h1: "SimpleNameInterface.modules (registry example_world) ''alpha'' = Some (Some 1)"
    by (simp add: example_world_def)
  have h2: "ModuleGroup_String example_world (Some 1) = Inr ''alpha''"
    by (simp add: ModuleGroup_String_def deref_def example_world_def example_heap_def)
  have h3: "SimpleNameInterface.modules (registry example_world) ''beta'' = None"
    by (simp add: example_world_def)
  from Rename_moves_group [OF h1 h2 h3, of example_fmt] show ?thesis
    by blast
qed

text \<open>
  C4. Whenever \<^verbatim>\<open>Rename\<close> returns a non-empty list of errors, the state returned is
  the state given: the maps and the name of every group are as before. There are two
  such cases. Either the new name is registered, and the one error contains the
  position of the first module of the group registered under it; or neither name is
  registered, and the one error says that the module to rename doesn't exist.
\<close>

theorem Rename_failure_unchanged:
  assumes "Rename f w oldName newName = Inr (w', errs)"
    and "errs \<noteq> []"
  shows "w' = w \<and>
         ((\<exists>existingGroup existing m e.
              SimpleNameInterface.modules (registry w) newName = Some existingGroup
              \<and> deref w existingGroup = Inr existing
              \<and> firstModule (moduleGroup.modules existing) = Inr m
              \<and> errs = [e] \<and> sublist (posString f (pos m)) e)
          \<or> (SimpleNameInterface.modules (registry w) newName = None
              \<and> SimpleNameInterface.modules (registry w) oldName = None
              \<and> (\<exists>e. errs = [e] \<and> sublist (''doesn'' @ [CHR 0x27] @ ''t exist'') e)))"
proof (cases "SimpleNameInterface.modules (registry w) newName")
  case None
  show ?thesis
  proof (cases "SimpleNameInterface.modules (registry w) oldName")
    case old: None
    let ?e = "''module '' @ quote f oldName @ '' to renamed to '' @ quote f newName
              @ '' doesn'' @ [CHR 0x27] @ ''t exist''"
    have "Rename f w oldName newName = Inr (w, [?e])"
      using None old by (rule Rename_missing_eq)
    with assms(1) have "w' = w" "errs = [?e]" by simp_all
    moreover have "sublist (''doesn'' @ [CHR 0x27] @ ''t exist'') ?e"
      unfolding sublist_def
      by (rule exI [of _ "''module '' @ quote f oldName @ '' to renamed to '' @ quote f newName @ '' ''"],
          rule exI [of _ "[]"]) simp
    ultimately show ?thesis using None old by blast
  next
    case (Some grp)
    with None assms show ?thesis
      by (auto simp: Rename_def split: option.splits)
  qed
next
  case (Some existingGroup)
  from assms(1) Some obtain existing where ex: "deref w existingGroup = Inr existing"
    by (auto simp: Rename_def split: sum.splits)
  from assms(1) Some ex obtain m where m: "firstModule (moduleGroup.modules existing) = Inr m"
    by (auto simp: Rename_def split: sum.splits)
  let ?e = "''renaming module '' @ quote f oldName @ '' to '' @ quote f newName
              @ '' conflicts with existing module\<newline>''
              @ ''       '' @ posString f (pos m)
              @ '' <-- existing module defined here''"
  have "Rename f w oldName newName = Inr (w, [?e])"
    using Some ex m by (rule Rename_conflict_eq)
  with assms(1) have "w' = w" "errs = [?e]" by simp_all
  moreover have "sublist (posString f (pos m)) ?e"
    unfolding sublist_def
    by (rule exI [of _ "''renaming module '' @ quote f oldName @ '' to '' @ quote f newName
              @ '' conflicts with existing module\<newline>'' @ ''       ''"],
        rule exI [of _ "'' <-- existing module defined here''"]) simp
  ultimately show ?thesis using Some ex m by blast
qed

theorem Rename_failure_unchanged_witness:
  "(\<exists>errs. Rename example_fmt example_world ''alpha'' ''mu'' = Inr (example_world, errs)
            \<and> errs \<noteq> [])
   \<and> (\<exists>errs. Rename example_fmt example_world ''nope'' ''beta'' = Inr (example_world, errs)
            \<and> errs \<noteq> [])"
proof -
  have "\<exists>w' errs. Rename example_fmt example_world ''alpha'' ''mu'' = Inr (w', errs) \<and> errs \<noteq> []"
    by (simp add: Rename_def example_world_def example_heap_def deref_def firstModule_def)
  then obtain w1 errs1
    where r1: "Rename example_fmt example_world ''alpha'' ''mu'' = Inr (w1, errs1)"
      and e1: "errs1 \<noteq> []" by blast
  have "\<exists>w' errs. Rename example_fmt example_world ''nope'' ''beta'' = Inr (w', errs) \<and> errs \<noteq> []"
    by (simp add: Rename_def example_world_def)
  then obtain w2 errs2
    where r2: "Rename example_fmt example_world ''nope'' ''beta'' = Inr (w2, errs2)"
      and e2: "errs2 \<noteq> []" by blast
  from Rename_failure_unchanged [OF r1 e1] have "w1 = example_world" by blast
  moreover from Rename_failure_unchanged [OF r2 e2] have "w2 = example_world" by blast
  ultimately show ?thesis using r1 e1 r2 e2 by blast
qed

text \<open>
  C9. Renaming a registered name to itself fails: the new name is found registered
  first, so the call returns the one error of the conflict, with the position of the
  group's own first module, and the state is unchanged.
\<close>

theorem Rename_self_fails:
  assumes "SimpleNameInterface.modules (registry w) N = Some existingGroup"
    and "deref w existingGroup = Inr existing"
    and "firstModule (moduleGroup.modules existing) = Inr m"
  shows "\<exists>e. Rename f w N N = Inr (w, [e])
           \<and> sublist (''renaming module '' @ quote f N @ '' to '' @ quote f N
                        @ '' conflicts with existing module'') e
           \<and> sublist (posString f (pos m)) e"
proof -
  let ?e = "''renaming module '' @ quote f N @ '' to '' @ quote f N
              @ '' conflicts with existing module\<newline>''
              @ ''       '' @ posString f (pos m)
              @ '' <-- existing module defined here''"
  have "Rename f w N N = Inr (w, [?e])"
    using assms by (rule Rename_conflict_eq)
  moreover have "sublist (''renaming module '' @ quote f N @ '' to '' @ quote f N
                        @ '' conflicts with existing module'') ?e"
    unfolding sublist_def
    by (rule exI [of _ "[]"],
        rule exI [of _ "[CHR 0x0A] @ ''       '' @ posString f (pos m)
              @ '' <-- existing module defined here''"]) simp
  moreover have "sublist (posString f (pos m)) ?e"
    unfolding sublist_def
    by (rule exI [of _ "''renaming module '' @ quote f N @ '' to '' @ quote f N
              @ '' conflicts with existing module\<newline>'' @ ''       ''"],
        rule exI [of _ "'' <-- existing module defined here''"]) simp
  ultimately show ?thesis by blast
qed

theorem Rename_self_fails_witness:
  "\<exists>e. Rename example_fmt example_world ''mu'' ''mu'' = Inr (example_world, [e])
       \<and> sublist ''c/Blueprints:7:1'' e"
proof -
  have h1: "SimpleNameInterface.modules (registry example_world) ''mu'' = Some (Some 2)"
    by (simp add: example_world_def)
  have h2: "deref example_world (Some 2) = Inr (example_heap 2)"
    by (simp add: deref_def example_world_def)
  have h3: "firstModule (moduleGroup.modules (example_heap 2)) = Inr \<lparr>pos = ''c/Blueprints:7:1''\<rparr>"
    by (simp add: firstModule_def example_heap_def)
  from Rename_self_fails [OF h1 h2 h3, of example_fmt] show ?thesis
    by (auto simp: example_fmt_def)
qed

section \<open>Enumeration\<close>

text \<open>
  When the groups to sort are not nil and carry different names, no comparison finds
  two equal names: \<^verbatim>\<open>duplicateName\<close> keeps its value, and the insertion sort returns
  the groups in strictly ascending order of their names.
\<close>

lemma less_groups_eq:
  assumes "ModuleGroup_String w x = Inr (nm x)" and "ModuleGroup_String w y = Inr (nm y)"
  shows "less_groups w x y d = Inr (nm x < nm y, if nm x = nm y then nm x else d)"
  using assms
  by (auto simp: less_groups_def ModuleGroup_String_def split: sum.splits)

lemma siftLeft_distinct_names:
  assumes "\<forall>g \<in> set (x # ys). ModuleGroup_String w g = Inr (nm g)"
    and "nm x \<notin> nm ` set ys"
    and "sorted_wrt (\<lambda>a b. nm b < nm a) ys"
  shows "\<exists>zs. siftLeft w x ys d = Inr (zs, d)
           \<and> sorted_wrt (\<lambda>a b. nm b < nm a) zs \<and> set zs = insert x (set ys)"
  using assms
proof (induction ys)
  case Nil
  then show ?case by simp
next
  case (Cons y ys)
  have lg: "less_groups w x y d = Inr (nm x < nm y, d)"
    using Cons.prems(1,2) less_groups_eq [of w x nm y d] by auto
  show ?case
  proof (cases "nm x < nm y")
    case True
    from Cons.prems have "\<exists>zs. siftLeft w x ys d = Inr (zs, d)
           \<and> sorted_wrt (\<lambda>a b. nm b < nm a) zs \<and> set zs = insert x (set ys)"
      by (intro Cons.IH) auto
    then obtain zs where zs: "siftLeft w x ys d = Inr (zs, d)"
      "sorted_wrt (\<lambda>a b. nm b < nm a) zs" "set zs = insert x (set ys)" by blast
    have "siftLeft w x (y # ys) d = Inr (y # zs, d)"
      using lg True zs(1) by simp
    moreover have "sorted_wrt (\<lambda>a b. nm b < nm a) (y # zs)"
      using zs(2,3) True Cons.prems(3) by auto
    moreover have "set (y # zs) = insert x (set (y # ys))"
      using zs(3) by auto
    ultimately show ?thesis by blast
  next
    case False
    with Cons.prems(2) have lt: "nm y < nm x" by auto
    have "siftLeft w x (y # ys) d = Inr (x # y # ys, d)"
      using lg False by simp
    moreover have "sorted_wrt (\<lambda>a b. nm b < nm a) (x # y # ys)"
      using lt Cons.prems(3) by (auto intro: less_trans)
    ultimately show ?thesis by simp
  qed
qed

lemma insertionSort_distinct_names:
  assumes "\<forall>g \<in> set xs \<union> set placed. ModuleGroup_String w g = Inr (nm g)"
    and "inj_on nm (set xs \<union> set placed)"
    and "distinct xs" and "set xs \<inter> set placed = {}"
    and "sorted_wrt (\<lambda>a b. nm b < nm a) placed"
  shows "\<exists>out. insertionSort w xs placed d = Inr (out, d)
           \<and> sorted_wrt (\<lambda>a b. nm a < nm b) out \<and> set out = set xs \<union> set placed"
  using assms
proof (induction xs arbitrary: placed)
  case Nil
  then show ?case by (simp add: sorted_wrt_rev)
next
  case (Cons x xs)
  have "nm x \<notin> nm ` set placed"
  proof
    assume "nm x \<in> nm ` set placed"
    then obtain p where p: "p \<in> set placed" "nm x = nm p" by auto
    with Cons.prems(2) have "x = p" by (auto simp: inj_on_def)
    with p Cons.prems(4) show False by auto
  qed
  with Cons.prems siftLeft_distinct_names [of x placed w nm d]
  obtain placed' where s: "siftLeft w x placed d = Inr (placed', d)"
    "sorted_wrt (\<lambda>a b. nm b < nm a) placed'" "set placed' = insert x (set placed)"
    by auto
  have u: "set xs \<union> set placed' = set (x # xs) \<union> set placed"
    using s(3) by auto
  have "\<exists>out. insertionSort w xs placed' d = Inr (out, d)
           \<and> sorted_wrt (\<lambda>a b. nm a < nm b) out \<and> set out = set xs \<union> set placed'"
  proof (rule Cons.IH)
    show "\<forall>g \<in> set xs \<union> set placed'. ModuleGroup_String w g = Inr (nm g)"
      using Cons.prems(1) u by auto
    show "inj_on nm (set xs \<union> set placed')" using Cons.prems(2) u by simp
    show "distinct xs" using Cons.prems(3) by simp
    show "set xs \<inter> set placed' = {}" using Cons.prems(3,4) s(3) by auto
    show "sorted_wrt (\<lambda>a b. nm b < nm a) placed'" by (rule s(2))
  qed
  then show ?case using s(1) u by simp
qed

lemma set_map_filter:
  "set (List.map_filter m ks) = {v. \<exists>k \<in> set ks. m k = Some v}"
  by (induction ks) (auto simp: List.map_filter_simps split: option.splits)

lemma set_map_filter_dom:
  "set ks = dom m \<Longrightarrow> set (List.map_filter m ks) = ran m"
  by (auto simp: set_map_filter ran_def dom_def)

lemma AllModules_names_consistent:
  assumes "names_consistent w" and "distinct ks"
    and "set ks = dom (SimpleNameInterface.modules (registry w))"
  shows "\<exists>out ns. AllModules w ks = Inr out
           \<and> set out = ran (SimpleNameInterface.modules (registry w)) \<and> distinct out
           \<and> map (ModuleGroup_String w) out = map Inr ns \<and> sorted_wrt (<) ns"
proof -
  let ?m = "SimpleNameInterface.modules (registry w)"
  let ?groups = "List.map_filter ?m ks"
  define nm :: "ModuleGroup \<Rightarrow> string"
    where "nm g = (case g of None \<Rightarrow> [] | Some a \<Rightarrow> name (heap w a))" for g
  have key: "ModuleGroup_String w g = Inr k \<and> nm g = k" if "?m k = Some g" for k g
  proof -
    from that assms(1) have "ModuleGroup_String w g = Inr k"
      by (simp add: names_consistent_def)
    then show ?thesis by (auto simp: ModuleGroup_String_Inr nm_def)
  qed
  have in_groups: "\<exists>k. k \<in> set ks \<and> ?m k = Some g" if "g \<in> set ?groups" for g
    using that by (auto simp: set_map_filter)
  have str: "\<forall>g \<in> set ?groups \<union> set []. ModuleGroup_String w g = Inr (nm g)"
    using in_groups key by fastforce
  have inj: "inj_on nm (set ?groups \<union> set [])"
  proof (rule inj_onI)
    fix g1 g2 assume "g1 \<in> set ?groups \<union> set []" "g2 \<in> set ?groups \<union> set []" "nm g1 = nm g2"
    then obtain k1 k2 where "?m k1 = Some g1" "?m k2 = Some g2" "nm g1 = nm g2"
      using in_groups by fastforce
    with key [of k1 g1] key [of k2 g2] show "g1 = g2" by simp
  qed
  have "?groups = map (the \<circ> ?m) ks"
    using assms(3) by (auto simp: List.map_filter_def dom_def filter_id_conv)
  moreover have "inj_on (the \<circ> ?m) (set ks)"
  proof (rule inj_onI)
    fix k1 k2 assume k: "k1 \<in> set ks" "k2 \<in> set ks" "(the \<circ> ?m) k1 = (the \<circ> ?m) k2"
    with assms(3) obtain g1 g2 where "?m k1 = Some g1" "?m k2 = Some g2" by auto
    with k(3) key [of k1 g1] key [of k2 g2] show "k1 = k2" by simp
  qed
  ultimately have dist: "distinct ?groups"
    using assms(2) by (simp add: distinct_map)
  from insertionSort_distinct_names [OF str inj dist, of "[]"]
  obtain out where out: "insertionSort w ?groups [] [] = Inr (out, [])"
    "sorted_wrt (\<lambda>a b. nm a < nm b) out" "set out = set ?groups"
    by auto
  have "AllModules w ks = Inr out"
    using out(1) by (simp add: AllModules_def)
  moreover have "set out = ran ?m"
    using out(3) assms(3) by (simp add: set_map_filter_dom)
  moreover have srt: "sorted_wrt (<) (map nm out)"
    using out(2) by (simp add: sorted_wrt_map)
  moreover have "distinct out"
  proof -
    from srt have "distinct (map nm out)" by (simp add: strict_sorted_iff)
    then show ?thesis by (simp add: distinct_map)
  qed
  moreover have "map (ModuleGroup_String w) out = map Inr (map nm out)"
    using str out(3) by simp
  ultimately show ?thesis by blast
qed

text \<open>
  C5. After any sequence of successful registrations on a new registry, in whatever
  order the names came and in whatever order the \<^verbatim>\<open>range\<close> loop visits the map,
  \<^verbatim>\<open>AllModules\<close> returns without panic; the list it returns holds exactly the
  registered groups, each once, and their names are strictly ascending in the
  lexicographic order of byte strings. Registering zeta, alpha, mu gives alpha, mu,
  zeta.
\<close>

theorem AllModules_sorted_after_registrations:
  assumes "registerAll f \<lparr>heap = h, registry = NewSimpleNameInterface\<rparr> grps = Some w"
    and "distinct ks"
    and "set ks = dom (SimpleNameInterface.modules (registry w))"
  shows "\<exists>out ns. AllModules w ks = Inr out
           \<and> set out = set grps \<and> distinct out
           \<and> map (ModuleGroup_String w) out = map Inr ns \<and> sorted_wrt (<) ns"
proof -
  from registerAll_Some [OF assms(1) names_consistent_fresh]
  have c: "names_consistent w"
    and r: "ran (SimpleNameInterface.modules (registry w)) = set grps"
    by (simp_all add: NewSimpleNameInterface_def)
  from AllModules_names_consistent [OF c assms(2,3)] r show ?thesis by simp
qed

theorem AllModules_sorted_after_registrations_witness:
  "\<exists>w. registerAll example_fmt \<lparr>heap = example_heap, registry = NewSimpleNameInterface\<rparr>
          [Some 0, Some 1, Some 2] = Some w
       \<and> SimpleNameInterface.modules (registry w)
           = [''zeta'' \<mapsto> Some 0, ''alpha'' \<mapsto> Some 1, ''mu'' \<mapsto> Some 2]
       \<and> AllModules w [''zeta'', ''alpha'', ''mu''] = Inr [Some 1, Some 2, Some 0]
       \<and> (\<exists>out ns. AllModules w [''zeta'', ''alpha'', ''mu''] = Inr out
             \<and> set out = {Some 0, Some 1, Some 2}
             \<and> map (ModuleGroup_String w) out = map Inr ns \<and> sorted_wrt (<) ns)"
proof -
  let ?w = "\<lparr>heap = example_heap,
             registry = \<lparr>modules = [''zeta'' \<mapsto> Some 0, ''alpha'' \<mapsto> Some 1, ''mu'' \<mapsto> Some 2],
                         skippedModules = Map.empty\<rparr>\<rparr>"
  have r: "registerAll example_fmt \<lparr>heap = example_heap, registry = NewSimpleNameInterface\<rparr>
          [Some 0, Some 1, Some 2] = Some ?w"
    by (simp add: NewModule_def deref_def example_heap_def NewSimpleNameInterface_def)
  have d: "distinct [''zeta'', ''alpha'', ''mu'']" by simp
  have k: "set [''zeta'', ''alpha'', ''mu''] = dom (SimpleNameInterface.modules (registry ?w))"
    by auto
  have e: "AllModules ?w [''zeta'', ''alpha'', ''mu''] = Inr [Some 1, Some 2, Some 0]"
    by (simp add: AllModules_def List.map_filter_def less_groups_def deref_def example_heap_def)
  from AllModules_sorted_after_registrations [OF r d k] r e show ?thesis
    by auto
qed

text \<open>
  When no group carries the empty name, the sort detects every duplicate: a group that
  moves left stops at the first neighbour whose name is not greater, and if its name
  occurs to its left that neighbour carries it. Once set, \<^verbatim>\<open>duplicateName\<close> is
  only ever overwritten by another duplicate name.
\<close>

lemma siftLeft_named:
  assumes "\<forall>g \<in> set (x # ys). ModuleGroup_String w g = Inr (nm g) \<and> nm g \<noteq> []"
    and "sorted_wrt (\<lambda>a b. nm b \<le> nm a) ys"
  shows "\<exists>zs d'. siftLeft w x ys d = Inr (zs, d')
           \<and> sorted_wrt (\<lambda>a b. nm b \<le> nm a) zs
           \<and> set zs = insert x (set ys)
           \<and> distinct (map nm zs) = (nm x \<notin> nm ` set ys \<and> distinct (map nm ys))
           \<and> (d \<noteq> [] \<longrightarrow> d' \<noteq> [])
           \<and> (nm x \<in> nm ` set ys \<longrightarrow> d' \<noteq> [])"
  using assms
proof (induction ys)
  case Nil
  then show ?case by simp
next
  case (Cons y ys)
  have lg: "less_groups w x y d = Inr (nm x < nm y, if nm x = nm y then nm x else d)"
    using Cons.prems(1) less_groups_eq [of w x nm y d] by simp
  show ?case
  proof (cases "nm x < nm y")
    case True
    from Cons.prems have "\<exists>zs d'. siftLeft w x ys d = Inr (zs, d')
           \<and> sorted_wrt (\<lambda>a b. nm b \<le> nm a) zs
           \<and> set zs = insert x (set ys)
           \<and> distinct (map nm zs) = (nm x \<notin> nm ` set ys \<and> distinct (map nm ys))
           \<and> (d \<noteq> [] \<longrightarrow> d' \<noteq> [])
           \<and> (nm x \<in> nm ` set ys \<longrightarrow> d' \<noteq> [])"
      by (intro Cons.IH) auto
    then obtain zs d' where zs: "siftLeft w x ys d = Inr (zs, d')"
      "sorted_wrt (\<lambda>a b. nm b \<le> nm a) zs" "set zs = insert x (set ys)"
      "distinct (map nm zs) = (nm x \<notin> nm ` set ys \<and> distinct (map nm ys))"
      "d \<noteq> [] \<longrightarrow> d' \<noteq> []" "nm x \<in> nm ` set ys \<longrightarrow> d' \<noteq> []"
      by blast
    from True have "nm x \<noteq> nm y" by auto
    then have "less_groups w x y d = Inr (True, d)"
      using lg True by simp
    then have "siftLeft w x (y # ys) d = Inr (y # zs, d')"
      using zs(1) by simp
    moreover have "sorted_wrt (\<lambda>a b. nm b \<le> nm a) (y # zs)"
      using zs(2,3) True Cons.prems(2) by auto
    moreover have "set (y # zs) = insert x (set (y # ys))"
      using zs(3) by auto
    moreover have "distinct (map nm (y # zs))
        = (nm x \<notin> nm ` set (y # ys) \<and> distinct (map nm (y # ys)))"
      using zs(3,4) True by auto
    moreover have "nm x \<in> nm ` set (y # ys) \<longrightarrow> d' \<noteq> []"
      using zs(6) True by auto
    ultimately show ?thesis using zs(5) by blast
  next
    case False
    let ?d = "if nm x = nm y then nm x else d"
    have "siftLeft w x (y # ys) d = Inr (x # y # ys, ?d)"
      using lg False by simp
    moreover have "sorted_wrt (\<lambda>a b. nm b \<le> nm a) (x # y # ys)"
      using False Cons.prems(2) by auto
    moreover have "d \<noteq> [] \<longrightarrow> ?d \<noteq> []"
      using Cons.prems(1) by simp
    moreover have "nm x \<in> nm ` set (y # ys) \<longrightarrow> ?d \<noteq> []"
    proof
      assume "nm x \<in> nm ` set (y # ys)"
      then have "nm x = nm y" using False Cons.prems(2) by force
      then show "?d \<noteq> []" using Cons.prems(1) by simp
    qed
    ultimately show ?thesis by simp
  qed
qed

lemma insertionSort_named:
  assumes "\<forall>g \<in> set xs \<union> set placed. ModuleGroup_String w g = Inr (nm g) \<and> nm g \<noteq> []"
    and "sorted_wrt (\<lambda>a b. nm b \<le> nm a) placed"
    and "d \<noteq> [] \<or> distinct (map nm placed)"
  shows "\<exists>out d'. insertionSort w xs placed d = Inr (out, d')
           \<and> (d' \<noteq> [] \<or> distinct (map nm (xs @ placed)))"
  using assms
proof (induction xs arbitrary: placed d)
  case Nil
  then show ?case by simp
next
  case (Cons x xs)
  from Cons.prems(1,2) siftLeft_named [of x placed w nm d]
  obtain placed' d' where s: "siftLeft w x placed d = Inr (placed', d')"
    "sorted_wrt (\<lambda>a b. nm b \<le> nm a) placed'" "set placed' = insert x (set placed)"
    "distinct (map nm placed') = (nm x \<notin> nm ` set placed \<and> distinct (map nm placed))"
    "d \<noteq> [] \<longrightarrow> d' \<noteq> []" "nm x \<in> nm ` set placed \<longrightarrow> d' \<noteq> []"
    by auto
  have "\<exists>out d''. insertionSort w xs placed' d' = Inr (out, d'')
           \<and> (d'' \<noteq> [] \<or> distinct (map nm (xs @ placed')))"
  proof (rule Cons.IH)
    show "\<forall>g \<in> set xs \<union> set placed'. ModuleGroup_String w g = Inr (nm g) \<and> nm g \<noteq> []"
      using Cons.prems(1) s(3) by auto
    show "sorted_wrt (\<lambda>a b. nm b \<le> nm a) placed'" by (rule s(2))
    show "d' \<noteq> [] \<or> distinct (map nm placed')"
      using Cons.prems(3) s(4,5,6) by auto
  qed
  then obtain out d'' where o: "insertionSort w xs placed' d' = Inr (out, d'')"
    "d'' \<noteq> [] \<or> distinct (map nm (xs @ placed'))" by blast
  have "distinct (map nm (xs @ placed')) \<Longrightarrow> distinct (map nm ((x # xs) @ placed))"
    using s(3,4) by auto
  with o s(1) show ?case by auto
qed

lemma AllModules_detects_named_duplicate:
  assumes "\<forall>g \<in> set (List.map_filter (SimpleNameInterface.modules (registry w)) ks).
             ModuleGroup_String w g = Inr (nm g) \<and> nm g \<noteq> []"
    and "\<not> distinct (map nm (List.map_filter (SimpleNameInterface.modules (registry w)) ks))"
  shows "\<exists>n. n \<noteq> [] \<and> AllModules w ks = Inl (DuplicateModuleGroupName n)"
proof -
  let ?groups = "List.map_filter (SimpleNameInterface.modules (registry w)) ks"
  from insertionSort_named [of ?groups "[]" w nm "[]"] assms(1)
  obtain out d' where o: "insertionSort w ?groups [] [] = Inr (out, d')"
    "d' \<noteq> [] \<or> distinct (map nm (?groups @ []))" by auto
  with assms(2) have "d' \<noteq> []" by simp
  with o(1) show ?thesis by (simp add: AllModules_def)
qed

text \<open>
  C6. Under the invariant the panic of \<^verbatim>\<open>AllModules\<close> cannot happen
  (\<open>AllModules_names_consistent\<close>), and two groups that share a non-empty name are
  detected when no group carries the empty name (\<open>AllModules_detects_named_duplicate\<close>).
  The detection, however, keeps the duplicate in a string whose empty value means that
  there is none: when the two groups that share a name share the empty name, the
  comparison stores the empty string, the test after the sort sees no duplicate, and
  \<^verbatim>\<open>AllModules\<close> returns both groups instead of panicking. With the same storage and
  the shared name \<^verbatim>\<open>x\<close> it panics.
\<close>

theorem AllModules_misses_duplicate_empty_name:
  "ModuleFromName duplicate_world ''a'' = (Some 0, True)
   \<and> ModuleFromName duplicate_world ''b'' = (Some 1, True)
   \<and> ModuleGroup_String duplicate_world (Some 0) = Inr []
   \<and> ModuleGroup_String duplicate_world (Some 1) = Inr []
   \<and> AllModules duplicate_world [''a'', ''b''] = Inr [Some 0, Some 1]
   \<and> AllModules duplicate_world [''b'', ''a''] = Inr [Some 1, Some 0]
   \<and> AllModules
        (duplicate_world\<lparr>heap := \<lambda>a. \<lparr>name = ''x'', modules = []\<rparr>\<rparr>) [''a'', ''b'']
        = Inl (DuplicateModuleGroupName ''x'')"
  by (simp add: duplicate_world_def ModuleFromName_def ModuleGroup_String_def
      AllModules_def List.map_filter_def less_groups_def deref_def)

section \<open>The missing-dependency message\<close>

text \<open>
  C7. \<^verbatim>\<open>MissingDependencyError\<close> branches on whether the missing name has skip
  records. If it has, the text lists the file names joined by a comma and a space and
  the reasons joined by a semicolon and a space, so it contains every file name and
  every reason. If it has not, the text says that the depender depends on an undefined
  module; the clause \<^verbatim>\<open>Did you mean\<close> with the quoted guesses follows when at least
  one guess is given, and nothing follows otherwise.
\<close>

theorem MissingDependencyError_text:
  "(skippedModules (registry w) dependency = Some skipInfos \<longrightarrow>
      MissingDependencyError f w depender dependency guess =
        ''module '' @ quote f depender @ '' depends on skipped module ''
        @ quote f dependency @ ''; '' @ quote f dependency
        @ '' was defined in files(s) ['' @ Join (map filename skipInfos) '', ''
        @ ''], but was skipped for reason(s) ['' @ Join (map reason skipInfos) ''; ''
        @ '']''
      \<and> (\<forall>info \<in> set skipInfos.
            sublist (filename info) (MissingDependencyError f w depender dependency guess)
            \<and> sublist (reason info) (MissingDependencyError f w depender dependency guess)))
   \<and> (skippedModules (registry w) dependency = None \<longrightarrow>
      MissingDependencyError f w depender dependency guess =
        quote f depender @ '' depends on undefined module '' @ quote f dependency @ ''.''
        @ (if guess = [] then [] else '' Did you mean '' @ quoteSlice f guess @ ''?'')
      \<and> (\<forall>g \<in> set guess.
            sublist (quote f g) (MissingDependencyError f w depender dependency guess)))"
proof (intro conjI impI ballI)
  assume s: "skippedModules (registry w) dependency = Some skipInfos"
  show eq: "MissingDependencyError f w depender dependency guess =
        ''module '' @ quote f depender @ '' depends on skipped module ''
        @ quote f dependency @ ''; '' @ quote f dependency
        @ '' was defined in files(s) ['' @ Join (map filename skipInfos) '', ''
        @ ''], but was skipped for reason(s) ['' @ Join (map reason skipInfos) ''; ''
        @ '']''"
    using s by (rule MissingDependencyError_skipped_eq)
  fix info assume i: "info \<in> set skipInfos"
  have "sublist (filename info) (Join (map filename skipInfos) '', '')"
    using i by (intro sublist_Join) simp
  moreover have "sublist (Join (map filename skipInfos) '', '')
      (MissingDependencyError f w depender dependency guess)"
    unfolding eq sublist_def
    by (rule exI [of _ "''module '' @ quote f depender @ '' depends on skipped module ''
        @ quote f dependency @ ''; '' @ quote f dependency
        @ '' was defined in files(s) [''"],
        rule exI [of _ "''], but was skipped for reason(s) [''
        @ Join (map reason skipInfos) ''; '' @ '']''"]) simp
  ultimately show "sublist (filename info) (MissingDependencyError f w depender dependency guess)"
    by (rule sublist_trans')
  have "sublist (reason info) (Join (map reason skipInfos) ''; '')"
    using i by (intro sublist_Join) simp
  moreover have "sublist (Join (map reason skipInfos) ''; '')
      (MissingDependencyError f w depender dependency guess)"
    unfolding eq sublist_def
    by (rule exI [of _ "''module '' @ quote f depender @ '' depends on skipped module ''
        @ quote f dependency @ ''; '' @ quote f dependency
        @ '' was defined in files(s) ['' @ Join (map filename skipInfos) '', ''
        @ ''], but was skipped for reason(s) [''"],
        rule exI [of _ "'']''"]) simp
  ultimately show "sublist (reason info) (MissingDependencyError f w depender dependency guess)"
    by (rule sublist_trans')
next
  assume n: "skippedModules (registry w) dependency = None"
  show eq: "MissingDependencyError f w depender dependency guess =
        quote f depender @ '' depends on undefined module '' @ quote f dependency @ ''.''
        @ (if guess = [] then [] else '' Did you mean '' @ quoteSlice f guess @ ''?'')"
    using n by (rule MissingDependencyError_undefined_eq)
  fix g assume g: "g \<in> set guess"
  then have ne: "guess \<noteq> []" by auto
  have "sublist (quote f g) (quoteSlice f guess)"
    using g by (rule sublist_quoteSlice)
  moreover have "sublist (quoteSlice f guess)
      (MissingDependencyError f w depender dependency guess)"
    unfolding eq sublist_def using ne
    by (intro exI [of _ "quote f depender @ '' depends on undefined module ''
          @ quote f dependency @ ''.'' @ '' Did you mean ''"] exI [of _ "''?''"]) simp
  ultimately show "sublist (quote f g) (MissingDependencyError f w depender dependency guess)"
    by (rule sublist_trans')
qed

theorem MissingDependencyError_text_witness:
  \<open>sublist ''fileA.bp'' (MissingDependencyError example_fmt example_world ''app'' ''gone'' [])
   \<and> sublist ''platform mismatch''
        (MissingDependencyError example_fmt example_world ''app'' ''gone'' [])
   \<and> MissingDependencyError example_fmt example_world ''app'' ''nowhere'' [] =
        ''"app" depends on undefined module "nowhere".''
   \<and> MissingDependencyError example_fmt example_world ''app'' ''nowhere'' [''alpha'', ''alpah''] =
        ''"app" depends on undefined module "nowhere". Did you mean ["alpha" "alpah"]?''\<close>
proof -
  have s: "skippedModules (registry example_world) ''gone'' =
      Some [\<lparr>filename = ''fileA.bp'', reason = ''license''\<rparr>,
            \<lparr>filename = ''fileB.bp'', reason = ''platform mismatch''\<rparr>]"
    by (simp add: example_world_def)
  have n: "skippedModules (registry example_world) ''nowhere'' = None"
    by (simp add: example_world_def)
  from MissingDependencyError_text
    [of example_world "''gone''"
        "[\<lparr>filename = ''fileA.bp'', reason = ''license''\<rparr>,
          \<lparr>filename = ''fileB.bp'', reason = ''platform mismatch''\<rparr>]"
        example_fmt "''app''" "[]"] s
  have "\<forall>info \<in> set [\<lparr>filename = ''fileA.bp'', reason = ''license''\<rparr>,
            \<lparr>filename = ''fileB.bp'', reason = ''platform mismatch''\<rparr>].
          sublist (filename info)
            (MissingDependencyError example_fmt example_world ''app'' ''gone'' [])
          \<and> sublist (reason info)
            (MissingDependencyError example_fmt example_world ''app'' ''gone'' [])"
    by blast
  then have a: "sublist ''fileA.bp'' (MissingDependencyError example_fmt example_world ''app'' ''gone'' [])"
    and b: "sublist ''platform mismatch''
        (MissingDependencyError example_fmt example_world ''app'' ''gone'' [])"
    by simp_all
  from MissingDependencyError_text
    [of example_world "''nowhere''" "[]" example_fmt "''app''" "[]"] n
  have c: \<open>MissingDependencyError example_fmt example_world ''app'' ''nowhere'' [] =
        ''"app" depends on undefined module "nowhere".''\<close>
    by (simp add: example_fmt_def)
  from MissingDependencyError_text
    [of example_world "''nowhere''" "[]" example_fmt "''app''" "[''alpha'', ''alpah'']"] n
  have d: \<open>MissingDependencyError example_fmt example_world ''app'' ''nowhere'' [''alpha'', ''alpah''] =
        ''"app" depends on undefined module "nowhere". Did you mean ["alpha" "alpah"]?''\<close>
    by (simp add: example_fmt_def quoteSlice_def)
  from a b c d show ?thesis by blast
qed

end
